theory Spec2Isabelle
  imports Main "HOL-Library.Word" "HOL-Library.Log_Nat"
begin

section \<open>Go run-time outcomes\<close>

text \<open>
  A Go function either returns or panics. The only panic the modelled code can raise is
  the run-time error of an index expression out of range; it carries the index and the
  length, as the Go message \<^verbatim>\<open>index out of range [i] with length n\<close> does.
  A Go \<^verbatim>\<open>error\<close> made by \<^verbatim>\<open>errors.New\<close> is its message; \<^verbatim>\<open>nil\<close> is
  \<open>None\<close>.
\<close>

datatype panic = IndexOutOfRange int nat

datatype 'a outcome = Returned 'a | Panicked panic

type_synonym error = "string option"

definition index :: "'a list \<Rightarrow> int \<Rightarrow> 'a outcome" where
  "index xs i =
     (if 0 \<le> i \<and> i < int (length xs) then Returned (xs ! nat i)
      else Panicked (IndexOutOfRange i (length xs)))"

section \<open>Status decoder (pkg/pocket, \<^verbatim>\<open>decode\<close>)\<close>

text \<open>
  The message table \<^verbatim>\<open>Results\<close> is declared in another file of the package; it is a
  parameter of the model. The status code is the C enum value converted by
  \<^verbatim>\<open>int(result)\<close>.
\<close>

definition decode :: "string list \<Rightarrow> int \<Rightarrow> error outcome" where
  "decode Results result =
     (let code = result in
      if code = 0 then Returned None
      else if code = 255 then
        (case index Results (int (length Results) - 1) of
           Returned m \<Rightarrow> Returned (Some m)
         | Panicked p \<Rightarrow> Panicked p)
      else
        (case index Results code of
           Returned m \<Rightarrow> Returned (Some m)
         | Panicked p \<Rightarrow> Panicked p))"

section \<open>Binary64 floating point\<close>

text \<open>
  Go's \<^verbatim>\<open>float64\<close> is IEEE 754 binary64. A value is a finite rational, an infinity or
  NaN. Every arithmetic operation returns the exact result rounded to the nearest
  representable value, ties to the even significand (\<open>fl\<close>): 53 significant bits,
  the quantum never below \<open>2^-1074\<close> (subnormals), overflow to an infinity from
  \<open>2^1024\<close> on. The sign of zero is not represented; a zero divisor is taken as +0, which
  is the only zero the modelled functions can divide by (\<open>x - x\<close> and the conversion of the
  unsigned 0 are both +0). On amd64 the Go compiler does not fuse a multiplication with an
  addition, so each operation rounds on its own.
\<close>

datatype f64 = Fin rat | PInf | NInf | NaN

definition pow2 :: "int \<Rightarrow> rat" where
  "pow2 k = (if 0 \<le> k then 2 ^ nat k else 1 / 2 ^ nat (- k))"

definition ilog2 :: "rat \<Rightarrow> int" where
  "ilog2 x = (let (p, q) = quotient_of \<bar>x\<bar>; k = bitlen p - bitlen q
              in if pow2 k \<le> \<bar>x\<bar> then k else k - 1)"

definition rne :: "rat \<Rightarrow> int" where
  "rne x = (let n = \<lfloor>x\<rfloor>; d = x - of_int n
            in if d < 1 / 2 then n else if 1 / 2 < d then n + 1
               else if even n then n else n + 1)"

definition fl :: "rat \<Rightarrow> f64" where
  "fl x = (if x = 0 then Fin 0 else
     let e = max (ilog2 x) (- 1022); u = pow2 (e - 52); r = of_int (rne (x / u)) * u
     in if 1024 \<le> ilog2 r then (if 0 < x then PInf else NInf) else Fin r)"

fun fneg :: "f64 \<Rightarrow> f64" where
  "fneg (Fin a) = Fin (- a)"
| "fneg PInf = NInf"
| "fneg NInf = PInf"
| "fneg NaN = NaN"

fun fadd :: "f64 \<Rightarrow> f64 \<Rightarrow> f64" where
  "fadd NaN _ = NaN"
| "fadd _ NaN = NaN"
| "fadd (Fin a) (Fin b) = fl (a + b)"
| "fadd PInf NInf = NaN"
| "fadd NInf PInf = NaN"
| "fadd PInf _ = PInf"
| "fadd NInf _ = NInf"
| "fadd (Fin a) b = b"

definition fsub :: "f64 \<Rightarrow> f64 \<Rightarrow> f64" where
  "fsub a b = fadd a (fneg b)"

fun fsgn :: "f64 \<Rightarrow> int" where
  "fsgn (Fin a) = (if a = 0 then 0 else if 0 < a then 1 else - 1)"
| "fsgn PInf = 1"
| "fsgn NInf = - 1"
| "fsgn NaN = 0"

definition inf_of :: "int \<Rightarrow> f64" where
  "inf_of s = (if s = 0 then NaN else if 0 < s then PInf else NInf)"

fun fmul :: "f64 \<Rightarrow> f64 \<Rightarrow> f64" where
  "fmul NaN _ = NaN"
| "fmul _ NaN = NaN"
| "fmul (Fin a) (Fin b) = fl (a * b)"
| "fmul a b = inf_of (fsgn a * fsgn b)"

fun fdiv :: "f64 \<Rightarrow> f64 \<Rightarrow> f64" where
  "fdiv NaN _ = NaN"
| "fdiv _ NaN = NaN"
| "fdiv (Fin a) (Fin b) = (if b = 0 then inf_of (fsgn (Fin a)) else fl (a / b))"
| "fdiv (Fin a) _ = Fin 0"
| "fdiv a (Fin b) = inf_of (fsgn a * (if b < 0 then - 1 else 1))"
| "fdiv _ _ = NaN"

text \<open>The conversions \<^verbatim>\<open>float64(x)\<close> of a \<^verbatim>\<open>uint64\<close> and of an \<^verbatim>\<open>int\<close>.\<close>

definition float64_of_uint64 :: "64 word \<Rightarrow> f64" where
  "float64_of_uint64 w = fl (of_nat (unat w))"

definition float64_of_int :: "int \<Rightarrow> f64" where
  "float64_of_int i = fl (of_int i)"

text \<open>
  The conversion \<^verbatim>\<open>uint64(f)\<close> discards the fraction (truncation towards zero). Where
  the truncated value is no \<^verbatim>\<open>uint64\<close> (negative, too large, infinite or NaN) the Go
  specification leaves the result to the implementation: the parameter \<open>cv\<close>.
\<close>

definition trunc :: "rat \<Rightarrow> int" where
  "trunc x = (if 0 \<le> x then \<lfloor>x\<rfloor> else \<lceil>x\<rceil>)"

definition uint64_of_float64 :: "(f64 \<Rightarrow> 64 word) \<Rightarrow> f64 \<Rightarrow> 64 word" where
  "uint64_of_float64 cv f =
     (case f of
        Fin x \<Rightarrow> (if 0 \<le> trunc x \<and> trunc x < 2 ^ 64 then word_of_int (trunc x) else cv f)
      | _ \<Rightarrow> cv f)"

text \<open>
  \<^verbatim>\<open>math.Round\<close> of the Go library: the nearest integer, halves away from zero;
  infinities and NaN are returned as they are. The result of rounding a binary64 value is
  a binary64 value, so no second rounding takes place.
\<close>

definition round_away :: "rat \<Rightarrow> int" where
  "round_away x = (if 0 \<le> x then \<lfloor>x + 1 / 2\<rfloor> else - \<lfloor>- x + 1 / 2\<rfloor>)"

fun Round :: "f64 \<Rightarrow> f64" where
  "Round (Fin x) = Fin (of_int (round_away x))"
| "Round f = f"

section \<open>Sweep generator (pkg/pocket, \<^verbatim>\<open>LinFrequency\<close> and \<^verbatim>\<open>LogFrequency\<close>)\<close>

text \<open>
  Both generators are loops over \<open>i = 0, ..., size - 1\<close> that append one frequency to
  the slice \<open>ff\<close>. Neither has a parameter check or an error result. \<^verbatim>\<open>math.Pow\<close>
  belongs to the Go library and is the parameter \<open>pow\<close>.
\<close>

function LinLoop ::
  "(f64 \<Rightarrow> 64 word) \<Rightarrow> f64 \<Rightarrow> f64 \<Rightarrow> int \<Rightarrow> int \<Rightarrow> 64 word list \<Rightarrow> 64 word list" where
  "LinLoop cv s e size' i ff =
     (if i < size' then
        (let f = fadd s (fdiv (fmul (float64_of_int i) (fsub e s))
                              (fsub (float64_of_int size') (Fin 1)))
         in LinLoop cv s e size' (i + 1) (ff @ [uint64_of_float64 cv f]))
      else ff)"
  by pat_completeness auto
termination
  by (relation "measure (\<lambda>(cv, s, e, size', i, ff). nat (size' - i))") auto

declare LinLoop.simps [simp del]

definition LinFrequency :: "(f64 \<Rightarrow> 64 word) \<Rightarrow> 64 word \<Rightarrow> 64 word \<Rightarrow> int \<Rightarrow> 64 word list" where
  "LinFrequency cv start end' size' =
     (let ff = []; s = float64_of_uint64 start; e = float64_of_uint64 end'
      in LinLoop cv s e size' 0 ff)"

function LogLoop ::
  "(f64 \<Rightarrow> f64 \<Rightarrow> f64) \<Rightarrow> (f64 \<Rightarrow> 64 word) \<Rightarrow> f64 \<Rightarrow> f64 \<Rightarrow> int \<Rightarrow> int \<Rightarrow> 64 word list
     \<Rightarrow> 64 word list" where
  "LogLoop pow cv s x size' i ff =
     (if i < size' then
        (let y = fdiv (float64_of_int i) (fsub (float64_of_int size') (Fin 1));
             f = fmul s (pow x y)
         in LogLoop pow cv s x size' (i + 1) (ff @ [uint64_of_float64 cv (Round f)]))
      else ff)"
  by pat_completeness auto
termination
  by (relation "measure (\<lambda>(pow, cv, s, x, size', i, ff). nat (size' - i))") auto

declare LogLoop.simps [simp del]

definition LogFrequency ::
  "(f64 \<Rightarrow> f64 \<Rightarrow> f64) \<Rightarrow> (f64 \<Rightarrow> 64 word) \<Rightarrow> 64 word \<Rightarrow> 64 word \<Rightarrow> int \<Rightarrow> 64 word list" where
  "LogFrequency pow cv start end' size' =
     (let ff = []; s = float64_of_uint64 start; e = float64_of_uint64 end'; x = fdiv e s
      in LogLoop pow cv s x size' 0 ff)"

text \<open>
  The point formulas in the words of the specification, evaluated in binary64:
  \<open>start + i (end - start) / (pointCount - 1)\<close> and
  \<open>start (end / start) ^ (i / (pointCount - 1))\<close>.
\<close>

definition linear_value :: "64 word \<Rightarrow> 64 word \<Rightarrow> int \<Rightarrow> int \<Rightarrow> f64" where
  "linear_value start end' pointCount i =
     fadd (float64_of_uint64 start)
       (fdiv (fmul (float64_of_int i) (fsub (float64_of_uint64 end') (float64_of_uint64 start)))
             (fsub (float64_of_int pointCount) (Fin 1)))"

definition logarithmic_value ::
  "(f64 \<Rightarrow> f64 \<Rightarrow> f64) \<Rightarrow> 64 word \<Rightarrow> 64 word \<Rightarrow> int \<Rightarrow> int \<Rightarrow> f64" where
  "logarithmic_value pow start end' pointCount i =
     fmul (float64_of_uint64 start)
       (pow (fdiv (float64_of_uint64 end') (float64_of_uint64 start))
            (fdiv (float64_of_int i) (fsub (float64_of_int pointCount) (Fin 1))))"

text \<open>
  The part of \<^verbatim>\<open>math.Pow\<close> that the two-point sweep needs: \<open>Pow(x, 0) = 1\<close> and
  \<open>Pow(x, 1) = x\<close>, both exact in the Go library.
\<close>

definition pow01 :: "f64 \<Rightarrow> f64 \<Rightarrow> f64" where
  "pow01 x y = (if y = Fin 0 then Fin 1 else if y = Fin 1 then x else NaN)"

text \<open>
  A further part of \<^verbatim>\<open>math.Pow\<close>, for three-point sweeps: \<open>Pow(x, 0.5)\<close> is
  \<^verbatim>\<open>math.Sqrt(x)\<close> in the Go library, the binary64 value nearest to the square root.
  \<open>sqrt3\<close> is that value for 3, and \<open>Sqrt(4) = 2\<close>.
\<close>

definition sqrt3 :: rat where
  "sqrt3 = 3900231685776981 / 2 ^ 51"

definition pow_half :: "f64 \<Rightarrow> f64 \<Rightarrow> f64" where
  "pow_half x y =
     (if y = Fin 0 then Fin 1
      else if y = Fin 1 then x
      else if y = Fin (1 / 2) \<and> x = Fin 3 then Fin sqrt3
      else if y = Fin (1 / 2) \<and> x = Fin 4 then Fin 2
      else NaN)"

text \<open>
  A conversion for closed instances. It stands for the choice of the implementation where
  the Go specification leaves the result open; no statement below depends on its value.
\<close>

definition cv0 :: "f64 \<Rightarrow> 64 word" where
  "cv0 f = 0"

section \<open>Device operations (pkg/pocket)\<close>

text \<open>
  The native measurement library is outside the repository. It is a parameter: a record
  of its entry points, each a function of the arguments passed by value and of the state
  \<open>'d\<close> of library and instrument, returning the status code, the values written
  through the pointer arguments, and the new state. Pointer arguments point to variables
  that the Go code has just zeroed, so their old contents are no input.
  \<^verbatim>\<open>PVNA_DeviceHandler\<close> is an opaque pointer (0 is \<^verbatim>\<open>nil\<close>); a
  \<^verbatim>\<open>PVNA_Sparam\<close> is a pair (real, imag) of doubles. The result buffers of a sweep are
  returned as lists: the contents of the four Go arrays after the call.
\<close>

type_synonym PVNA_DeviceHandler = nat

type_synonym PVNA_Sparam = "f64 \<times> f64"

record 'd library =
  pocketvna_get_first_device_handle :: "'d \<Rightarrow> (int \<times> PVNA_DeviceHandler) \<times> 'd"
  pocketvna_release_handle :: "PVNA_DeviceHandler \<Rightarrow> 'd \<Rightarrow> int \<times> 'd"
  pocketvna_get_reasonable_frequency_range ::
    "PVNA_DeviceHandler \<Rightarrow> 'd \<Rightarrow> (int \<times> 64 word \<times> 64 word) \<times> 'd"
  pocketvna_single_query ::
    "PVNA_DeviceHandler \<Rightarrow> 64 word \<Rightarrow> 16 word \<Rightarrow> int \<Rightarrow> 'd
       \<Rightarrow> (int \<times> PVNA_Sparam \<times> PVNA_Sparam \<times> PVNA_Sparam \<times> PVNA_Sparam) \<times> 'd"
  pocketvna_range_query ::
    "PVNA_DeviceHandler \<Rightarrow> 64 word \<Rightarrow> 64 word \<Rightarrow> 32 word \<Rightarrow> int \<Rightarrow> 16 word \<Rightarrow> int \<Rightarrow> 'd
       \<Rightarrow> (int \<times> PVNA_Sparam list \<times> PVNA_Sparam list \<times> PVNA_Sparam list \<times> PVNA_Sparam list) \<times> 'd"

text \<open>
  The Go types of the package are declared in another file; the records have the fields
  that the code reads and writes.
\<close>

record SParamSelect =
  S11 :: bool
  S12 :: bool
  S21 :: bool
  S22 :: bool

record Complex =
  Real :: f64
  Imag :: f64

record SParam =
  S11 :: Complex
  S12 :: Complex
  S21 :: Complex
  S22 :: Complex
  Freq :: "64 word"

record FrequencyRange =
  Start :: "64 word"
  End :: "64 word"

record ReasonableFrequencyRange =
  Result :: FrequencyRange

record RangeQuery =
  Range :: FrequencyRange
  Size :: int
  LogDistribution :: bool
  Avg :: "16 word"
  Select :: SParamSelect
  Result :: "SParam list"

record SingleQuery =
  Freq :: "64 word"
  Avg :: "16 word"
  Select :: SParamSelect
  Result :: SParam

text \<open>
  A value of type \<^verbatim>\<open>interface{}\<close> on the command and result channels, by its dynamic
  type. \<open>VCustomResult m c\<close> is \<^verbatim>\<open>CustomResult{Message: m, Command: c}\<close>.
\<close>

datatype 'a iface =
    Nil
  | VReasonableFrequencyRange ReasonableFrequencyRange
  | VRangeQuery RangeQuery
  | VSingleQuery SingleQuery
  | VCustomResult string "'a iface"
  | VOther 'a

record VNA =
  handle :: PVNA_DeviceHandler

definition getFirstDeviceHandle ::
  "'d library \<Rightarrow> string list \<Rightarrow> 'd \<Rightarrow> (PVNA_DeviceHandler \<times> error) outcome \<times> 'd" where
  "getFirstDeviceHandle lib Results w =
     (case pocketvna_get_first_device_handle lib w of
        ((result, h), w') \<Rightarrow>
          (case decode Results result of
             Returned err \<Rightarrow> (Returned (h, err), w')
           | Panicked p \<Rightarrow> (Panicked p, w')))"

definition releaseHandle ::
  "'d library \<Rightarrow> string list \<Rightarrow> PVNA_DeviceHandler \<Rightarrow> 'd \<Rightarrow> error outcome \<times> 'd" where
  "releaseHandle lib Results h w =
     (case pocketvna_release_handle lib h w of
        (result, w') \<Rightarrow> (decode Results result, w'))"

definition Connect ::
  "'d library \<Rightarrow> string list \<Rightarrow> VNA \<Rightarrow> 'd \<Rightarrow> (error outcome \<times> VNA) \<times> 'd" where
  "Connect lib Results v w =
     (case getFirstDeviceHandle lib Results w of
        (Panicked p, w') \<Rightarrow> ((Panicked p, v), w')
      | (Returned (h, err), w') \<Rightarrow>
          (case err of
             Some m \<Rightarrow> ((Returned (Some m), v), w')
           | None \<Rightarrow> ((Returned None, v\<lparr>handle := h\<rparr>), w')))"

definition Disconnect :: "'d library \<Rightarrow> string list \<Rightarrow> VNA \<Rightarrow> 'd \<Rightarrow> error outcome \<times> 'd" where
  "Disconnect lib Results v w = releaseHandle lib Results (handle v) w"

definition getReasonableFrequencyRange ::
  "'d library \<Rightarrow> string list \<Rightarrow> PVNA_DeviceHandler \<Rightarrow> 'd
     \<Rightarrow> (64 word \<times> 64 word \<times> error) outcome \<times> 'd" where
  "getReasonableFrequencyRange lib Results h w =
     (case pocketvna_get_reasonable_frequency_range lib h w of
        ((result, from, to), w') \<Rightarrow>
          (case decode Results result of
             Returned err \<Rightarrow> (Returned (from, to, err), w')
           | Panicked p \<Rightarrow> (Panicked p, w')))"

definition GetReasonableFrequencyRange ::
  "'d library \<Rightarrow> string list \<Rightarrow> VNA \<Rightarrow> ReasonableFrequencyRange \<Rightarrow> 'd
     \<Rightarrow> (ReasonableFrequencyRange \<times> error) outcome \<times> 'd" where
  "GetReasonableFrequencyRange lib Results v r w =
     (case getReasonableFrequencyRange lib Results (handle v) w of
        (Panicked p, w') \<Rightarrow> (Panicked p, w')
      | (Returned (fStart, fEnd, err), w') \<Rightarrow>
          (case err of
             Some m \<Rightarrow> (Returned (r, Some m), w')
           | None \<Rightarrow>
               (Returned (r\<lparr>ReasonableFrequencyRange.Result := \<lparr>Start = fStart, End = fEnd\<rparr>\<rparr>, None),
                w')))"

definition encodeParams :: "SParamSelect \<Rightarrow> int" where
  "encodeParams p =
     (let n = 0;
          n = (if SParamSelect.S21 p then n + 1 else n);
          n = (if SParamSelect.S11 p then n + 2 else n);
          n = (if SParamSelect.S12 p then n + 4 else n);
          n = (if SParamSelect.S22 p then n + 8 else n)
      in n)"

definition to_Complex :: "PVNA_Sparam \<Rightarrow> Complex" where
  "to_Complex c = \<lparr>Real = fst c, Imag = snd c\<rparr>"

definition singleQuery ::
  "'d library \<Rightarrow> string list \<Rightarrow> PVNA_DeviceHandler \<Rightarrow> 64 word \<Rightarrow> 16 word \<Rightarrow> SParamSelect \<Rightarrow> 'd
     \<Rightarrow> (SParam \<times> error) outcome \<times> 'd" where
  "singleQuery lib Results h freq avg p w =
     (case pocketvna_single_query lib h freq avg (encodeParams p) w of
        ((result, s11, s21, s12, s22), w') \<Rightarrow>
          (let s = \<lparr>S11 = to_Complex s11, S12 = to_Complex s12, S21 = to_Complex s21,
                    S22 = to_Complex s22, Freq = freq\<rparr>
           in case decode Results result of
                Returned err \<Rightarrow> (Returned (s, err), w')
              | Panicked q \<Rightarrow> (Panicked q, w')))"

definition SingleQuery ::
  "'d library \<Rightarrow> string list \<Rightarrow> VNA \<Rightarrow> SingleQuery \<Rightarrow> 'd \<Rightarrow> (SingleQuery \<times> error) outcome \<times> 'd" where
  "SingleQuery lib Results v s w =
     (case singleQuery lib Results (handle v) (SingleQuery.Freq s) (SingleQuery.Avg s)
             (SingleQuery.Select s) w of
        (Panicked q, w') \<Rightarrow> (Panicked q, w')
      | (Returned (sparam, err), w') \<Rightarrow>
          (case err of
             Some m \<Rightarrow> (Returned (s, Some m), w')
           | None \<Rightarrow> (Returned (s\<lparr>SingleQuery.Result := sparam\<rparr>, None), w')))"

text \<open>
  The sweep. The four result buffers are Go arrays of exactly 512 elements, zeroed before
  the call; an index expression on them beyond 511 panics. The loop reads
  \<open>S11[i]\<close>, \<open>S12[i]\<close>, \<open>S21[i]\<close>, \<open>S22[i]\<close> and \<open>ff[i]\<close> in this order.
  The source decodes the status code twice, first for a debug log line; the decoder is a
  pure function, so the model decodes once.
\<close>

definition array512 :: "PVNA_Sparam list \<Rightarrow> PVNA_Sparam list" where
  "array512 xs = take 512 (xs @ replicate 512 (Fin 0, Fin 0))"

definition sweep_point ::
  "PVNA_Sparam list \<Rightarrow> PVNA_Sparam list \<Rightarrow> PVNA_Sparam list \<Rightarrow> PVNA_Sparam list \<Rightarrow> 64 word list
     \<Rightarrow> int \<Rightarrow> SParam outcome" where
  "sweep_point a11 a12 a21 a22 ff i =
     (case index a11 i of Panicked q \<Rightarrow> Panicked q | Returned s11 \<Rightarrow>
      case index a12 i of Panicked q \<Rightarrow> Panicked q | Returned s12 \<Rightarrow>
      case index a21 i of Panicked q \<Rightarrow> Panicked q | Returned s21 \<Rightarrow>
      case index a22 i of Panicked q \<Rightarrow> Panicked q | Returned s22 \<Rightarrow>
      case index ff i of Panicked q \<Rightarrow> Panicked q | Returned f \<Rightarrow>
        Returned \<lparr>S11 = to_Complex s11, S12 = to_Complex s12, S21 = to_Complex s21,
                  S22 = to_Complex s22, Freq = f\<rparr>)"

function sweep_loop ::
  "PVNA_Sparam list \<Rightarrow> PVNA_Sparam list \<Rightarrow> PVNA_Sparam list \<Rightarrow> PVNA_Sparam list \<Rightarrow> 64 word list
     \<Rightarrow> int \<Rightarrow> int \<Rightarrow> SParam list \<Rightarrow> SParam list outcome" where
  "sweep_loop a11 a12 a21 a22 ff size' i ss =
     (if i < size' then
        (case sweep_point a11 a12 a21 a22 ff i of
           Panicked q \<Rightarrow> Panicked q
         | Returned s \<Rightarrow> sweep_loop a11 a12 a21 a22 ff size' (i + 1) (ss @ [s]))
      else Returned ss)"
  by pat_completeness auto
termination
  by (relation "measure (\<lambda>(a11, a12, a21, a22, ff, size', i, ss). nat (size' - i))") auto

declare sweep_loop.simps [simp del]

definition rangeQuery ::
  "'d library \<Rightarrow> string list \<Rightarrow> (f64 \<Rightarrow> f64 \<Rightarrow> f64) \<Rightarrow> (f64 \<Rightarrow> 64 word) \<Rightarrow> PVNA_DeviceHandler
     \<Rightarrow> 64 word \<Rightarrow> 64 word \<Rightarrow> int \<Rightarrow> int \<Rightarrow> 16 word \<Rightarrow> SParamSelect \<Rightarrow> 'd
     \<Rightarrow> (SParam list \<times> error) outcome \<times> 'd" where
  "rangeQuery lib Results pow cv h start end' size' distr avg p w =
     (case pocketvna_range_query lib h start end' (word_of_int size') distr avg (encodeParams p) w of
        ((result, b11, b21, b12, b22), w') \<Rightarrow>
          (let a11 = array512 b11; a12 = array512 b12; a21 = array512 b21; a22 = array512 b22;
               ff = (if distr = 1 then LinFrequency cv start end' size'
                     else LogFrequency pow cv start end' size')
           in case sweep_loop a11 a12 a21 a22 ff size' 0 [] of
                Panicked q \<Rightarrow> (Panicked q, w')
              | Returned ss \<Rightarrow>
                  (case decode Results result of
                     Panicked q \<Rightarrow> (Panicked q, w')
                   | Returned err \<Rightarrow> (Returned (ss, err), w'))))"

definition RangeQuery ::
  "'d library \<Rightarrow> string list \<Rightarrow> (f64 \<Rightarrow> f64 \<Rightarrow> f64) \<Rightarrow> (f64 \<Rightarrow> 64 word) \<Rightarrow> VNA \<Rightarrow> RangeQuery
     \<Rightarrow> 'd \<Rightarrow> (RangeQuery \<times> error) outcome \<times> 'd" where
  "RangeQuery lib Results pow cv v r w =
     (let distr = (if LogDistribution r then 2 else 1)
      in case rangeQuery lib Results pow cv (handle v) (Start (Range r)) (End (Range r)) (Size r)
                distr (RangeQuery.Avg r) (RangeQuery.Select r) w of
           (Panicked q, w') \<Rightarrow> (Panicked q, w')
         | (Returned (sparams, err), w') \<Rightarrow>
             (case err of
                Some m \<Rightarrow> (Returned (r, Some m), w')
              | None \<Rightarrow> (Returned (r\<lparr>RangeQuery.Result := sparams\<rparr>, None), w')))"

section \<open>Command dispatcher and device actor (pkg/pocket)\<close>

definition reply :: "('r \<Rightarrow> 'a iface) \<Rightarrow> ('r \<times> error) outcome \<times> 'd \<Rightarrow> 'a iface outcome \<times> 'd" where
  "reply wrap x =
     (case x of
        (Panicked q, w') \<Rightarrow> (Panicked q, w')
      | (Returned (result, err), w') \<Rightarrow>
          (case err of
             Some m \<Rightarrow> (Returned (VCustomResult m Nil), w')
           | None \<Rightarrow> (Returned (wrap result), w')))"

fun HandleCommand ::
  "'d library \<Rightarrow> string list \<Rightarrow> (f64 \<Rightarrow> f64 \<Rightarrow> f64) \<Rightarrow> (f64 \<Rightarrow> 64 word) \<Rightarrow> VNA \<Rightarrow> 'a iface \<Rightarrow> 'd
     \<Rightarrow> 'a iface outcome \<times> 'd" where
  "HandleCommand lib Results pow cv v (VReasonableFrequencyRange r) w =
     reply VReasonableFrequencyRange (GetReasonableFrequencyRange lib Results v r w)"
| "HandleCommand lib Results pow cv v (VRangeQuery r) w =
     reply VRangeQuery (RangeQuery lib Results pow cv v r w)"
| "HandleCommand lib Results pow cv v (VSingleQuery s) w =
     reply VSingleQuery (SingleQuery lib Results v s w)"
| "HandleCommand lib Results pow cv v command w =
     (Returned (VCustomResult ''Unknown Command'' command), w)"

text \<open>
  The actor \<^verbatim>\<open>Run\<close>. Each round of its \<^verbatim>\<open>select\<close> takes either a command from the
  request channel or the cancellation of the context; the list of events is what the
  rounds take, in order. With no event left the actor waits. A panic ends the process.
  The result is the list of values sent on the result channel, how the run ended, and the
  state of the native library.
\<close>

datatype 'a event = Cmd "'a iface" | Done

datatype ending = Waiting | Terminated | Crashed panic

fun Run_loop ::
  "'d library \<Rightarrow> string list \<Rightarrow> (f64 \<Rightarrow> f64 \<Rightarrow> f64) \<Rightarrow> (f64 \<Rightarrow> 64 word) \<Rightarrow> VNA \<Rightarrow> 'a event list
     \<Rightarrow> 'a iface list \<Rightarrow> 'd \<Rightarrow> 'a iface list \<times> ending \<times> 'd" where
  "Run_loop lib Results pow cv v [] out w = (out, Waiting, w)"
| "Run_loop lib Results pow cv v (Cmd cmd # evs) out w =
     (case HandleCommand lib Results pow cv v cmd w of
        (Panicked q, w') \<Rightarrow> (out, Crashed q, w')
      | (Returned r, w') \<Rightarrow> Run_loop lib Results pow cv v evs (out @ [r]) w')"
| "Run_loop lib Results pow cv v (Done # evs) out w =
     (case Disconnect lib Results v w of
        (Panicked q, w') \<Rightarrow> (out, Crashed q, w')
      | (Returned err, w') \<Rightarrow>
          (case err of
             Some m \<Rightarrow> (out @ [VCustomResult m Nil], Terminated, w')
           | None \<Rightarrow> (out, Terminated, w')))"

definition Run ::
  "'d library \<Rightarrow> string list \<Rightarrow> (f64 \<Rightarrow> f64 \<Rightarrow> f64) \<Rightarrow> (f64 \<Rightarrow> 64 word) \<Rightarrow> VNA \<Rightarrow> 'a event list
     \<Rightarrow> 'd \<Rightarrow> 'a iface list \<times> ending \<times> 'd" where
  "Run lib Results pow cv v evs w =
     (case Connect lib Results v w of
        ((Panicked q, v'), w') \<Rightarrow> ([], Crashed q, w')
      | ((Returned err, v'), w') \<Rightarrow>
          (case err of
             Some m \<Rightarrow> ([VCustomResult m Nil], Terminated, w')
           | None \<Rightarrow> Run_loop lib Results pow cv v' evs [] w'))"

section \<open>Switch control (pkg/rfswitch)\<close>

text \<open>
  \<^verbatim>\<open>Command\<close> and \<^verbatim>\<open>Report\<close> are declared in another file of the package; the
  records have the fields that the code uses. A value received on the response channel is
  a \<^verbatim>\<open>Report\<close> or a value of another dynamic type.
\<close>

record Command =
  Set :: string
  To :: string

record Report =
  Report :: string
  Is :: string

datatype response = VReport Report | VNotReport

text \<open>
  Each \<^verbatim>\<open>select\<close> of \<^verbatim>\<open>SetPort\<close> either times out or completes its channel
  operation. The receive loop is given the outcomes of its rounds in order; when no
  response is left the timer of the round fires.
\<close>

datatype sending = SendTimeout | Sent

datatype receiving = ReceiveTimeout | Received response

fun receive_loop :: "string \<Rightarrow> int \<Rightarrow> receiving list \<Rightarrow> error" where
  "receive_loop port i [] =
     (if i < 5 then Some ''timeout receiving response''
      else Some ''Too many Unexpected responses'')"
| "receive_loop port i (ReceiveTimeout # rest) =
     (if i < 5 then Some ''timeout receiving response''
      else Some ''Too many Unexpected responses'')"
| "receive_loop port i (Received (VReport r) # rest) =
     (if i < 5 then
        (if Report r = ''error'' then Some (''Error'' @ Is r)
         else if Report r = ''port'' \<and> Is r = port then None
         else receive_loop port (i + 1) rest)
      else Some ''Too many Unexpected responses'')"
| "receive_loop port i (Received VNotReport # rest) =
     (if i < 5 then receive_loop port (i + 1) rest
      else Some ''Too many Unexpected responses'')"

text \<open>The result of \<^verbatim>\<open>SetPort\<close>: the commands put on the request channel, and the error.\<close>

definition SetPort :: "string \<Rightarrow> sending \<Rightarrow> receiving list \<Rightarrow> Command list \<times> error" where
  "SetPort port sending responses =
     (let request = \<lparr>Set = ''port'', To = port\<rparr>
      in case sending of
           SendTimeout \<Rightarrow> ([], Some ''timeout sending request'')
         | Sent \<Rightarrow> ([request], receive_loop port 0 responses))"

text \<open>
  A response that is neither an error report nor the matching report: a report of another
  kind or value, or a value that is no report.
\<close>

fun unexpected :: "string \<Rightarrow> response \<Rightarrow> bool" where
  "unexpected port (VReport r) = (Report r \<noteq> ''error'' \<and> \<not> (Report r = ''port'' \<and> Is r = port))"
| "unexpected port VNotReport = True"

section \<open>Outbound transport adapter (pkg/rfswitch, \<^verbatim>\<open>PipeInterfaceToWs\<close>)\<close>

text \<open>
  \<^verbatim>\<open>json.Marshal\<close> belongs to the Go library and is a parameter: it returns the payload
  and the error. Each round of the \<^verbatim>\<open>select\<close> takes the cancellation of the context
  or a value from the input channel. The result is the list of messages put on the
  transport's outbound channel and the list of warnings logged. The function returns
  nothing to its caller.
\<close>

record WsMessage =
  Data :: string
  Type :: int

definition TextMessage :: int where
  "TextMessage = 1"

datatype 'a pipe_event = CtxDone | In 'a

datatype log_entry = Warning string string

fun PipeInterfaceToWs ::
  "('a \<Rightarrow> string \<times> error) \<Rightarrow> 'a pipe_event list \<Rightarrow> WsMessage list \<times> log_entry list" where
  "PipeInterfaceToWs Marshal [] = ([], [])"
| "PipeInterfaceToWs Marshal (CtxDone # evs) = ([], [])"
| "PipeInterfaceToWs Marshal (In s # evs) =
     (let mtype = TextMessage;
          (payload, err) = Marshal s;
          logged = (case err of
                      Some e \<Rightarrow> [Warning e ''Could not turn interface{} into JSON'']
                    | None \<Rightarrow> []);
          (out, logs) = PipeInterfaceToWs Marshal evs
      in (\<lparr>Data = payload, Type = mtype\<rparr> # out, logged @ logs))"

text \<open>A marshaller that fails on every value, as \<^verbatim>\<open>json.Marshal\<close> does on a channel.\<close>

definition failing_Marshal :: "unit \<Rightarrow> string \<times> error" where
  "failing_Marshal s = ([], Some ''json: unsupported type'')"

section \<open>Concrete instances\<close>

text \<open>
  A native library whose state is the log of the calls made to it. Acquiring a handle
  fails with status code 1; every other call succeeds with zeroed results.
\<close>

definition logging_library :: "string list library" where
  "logging_library =
     \<lparr>pocketvna_get_first_device_handle = (\<lambda>w. ((1, 0), w @ [''get_first_device_handle''])),
      pocketvna_release_handle = (\<lambda>h w. (0, w @ [''release_handle''])),
      pocketvna_get_reasonable_frequency_range =
        (\<lambda>h w. ((0, 0, 0), w @ [''get_reasonable_frequency_range''])),
      pocketvna_single_query =
        (\<lambda>h f a p w. ((0, (Fin 0, Fin 0), (Fin 0, Fin 0), (Fin 0, Fin 0), (Fin 0, Fin 0)),
                       w @ [''single_query''])),
      pocketvna_range_query =
        (\<lambda>h s e n d a p w. ((0, [], [], [], []), w @ [''range_query'']))\<rparr>"

definition messages :: "string list" where
  "messages = [''ok'', ''no device'', ''other'']"

definition sweep513 :: RangeQuery where
  "sweep513 =
     \<lparr>Range = \<lparr>Start = 1000, End = 2000\<rparr>, Size = 513, LogDistribution = False, Avg = 1,
      Select = \<lparr>SParamSelect.S11 = True, S12 = False, S21 = False, S22 = False\<rparr>,
      Result = []\<rparr>"

section \<open>Properties of the status decoder\<close>

lemma index_in_range:
  "0 \<le> i \<Longrightarrow> i < int (length xs) \<Longrightarrow> index xs i = Returned (xs ! nat i)"
  by (simp add: index_def)

lemma index_last: "xs \<noteq> [] \<Longrightarrow> index xs (int (length xs) - 1) = Returned (last xs)"
  by (cases xs rule: rev_cases) (simp_all add: index_def nat_diff_distrib')

lemma index_out_of_range:
  "i < 0 \<or> int (length xs) \<le> i \<Longrightarrow> index xs i = Panicked (IndexOutOfRange i (length xs))"
  by (auto simp add: index_def)

text \<open>The three branches of the decoder, each on its own condition.\<close>

lemma decode_cases:
  "decode tbl 0 = Returned None"
  "tbl \<noteq> [] \<Longrightarrow> decode tbl 255 = Returned (Some (last tbl))"
  "0 < code \<Longrightarrow> code < int (length tbl) \<Longrightarrow> code \<noteq> 255 \<Longrightarrow>
     decode tbl code = Returned (Some (tbl ! nat code))"
proof -
  show "decode tbl 0 = Returned None"
    by (simp add: decode_def)
  show "tbl \<noteq> [] \<Longrightarrow> decode tbl 255 = Returned (Some (last tbl))"
    by (simp add: decode_def index_last)
  show "0 < code \<Longrightarrow> code < int (length tbl) \<Longrightarrow> code \<noteq> 255 \<Longrightarrow>
     decode tbl code = Returned (Some (tbl ! nat code))"
    by (simp add: decode_def index_in_range)
qed

text \<open>
  Claim C5. The message table is indexed by the status codes below the sentinel 255, so
  it is not empty and has at most 256 entries. For every such table: code 0 decodes to
  success, code 255 decodes to the last message of the table whatever its length, and
  every code strictly between 0 and the table length decodes to the table entry at that
  index.
\<close>

theorem decode_table:
  "tbl \<noteq> [] \<Longrightarrow> length tbl \<le> 256 \<Longrightarrow>
   decode tbl 0 = Returned None \<and>
   decode tbl 255 = Returned (Some (last tbl)) \<and>
   (\<forall>code. 0 < code \<and> code < int (length tbl) \<longrightarrow>
      decode tbl code = Returned (Some (tbl ! nat code)))"
proof (intro conjI allI impI)
  assume ne: "tbl \<noteq> []" and le: "length tbl \<le> 256"
  show "decode tbl 0 = Returned None"
    by (rule decode_cases(1))
  show l: "decode tbl 255 = Returned (Some (last tbl))"
    using ne by (rule decode_cases(2))
  fix code :: int
  assume c: "0 < code \<and> code < int (length tbl)"
  show "decode tbl code = Returned (Some (tbl ! nat code))"
  proof (cases "code = 255")
    case False
    then show ?thesis using c by (simp add: decode_cases(3))
  next
    case True
    then have "length tbl = 256" using c le by simp
    then have "last tbl = tbl ! nat code"
      using ne True by (simp add: last_conv_nth)
    then show ?thesis using l True by simp
  qed
qed

text \<open>Claim C5 on a table of three messages, at codes 0, 255, 1 and 2.\<close>

theorem decode_table_witness:
  "[''ok'', ''no device'', ''other''] \<noteq> [] \<and> length [''ok'', ''no device'', ''other''] \<le> 256 \<and>
   decode [''ok'', ''no device'', ''other''] 0 = Returned None \<and>
   decode [''ok'', ''no device'', ''other''] 255 = Returned (Some ''other'') \<and>
   decode [''ok'', ''no device'', ''other''] 1 = Returned (Some ''no device'') \<and>
   decode [''ok'', ''no device'', ''other''] 2 = Returned (Some ''other'')"
  using decode_table [of "[''ok'', ''no device'', ''other'']"]
  by (simp add: nat_eq_iff)

text \<open>
  Claim C10. A nonzero status code other than 255 that is not an index of the message
  table (negative, or at least the table length) makes the decoder panic with an index
  out of range: it returns no error value, and in particular not the catch-all message.
\<close>

theorem decode_out_of_range_panics:
  "code \<noteq> 0 \<Longrightarrow> code \<noteq> 255 \<Longrightarrow> code < 0 \<or> int (length tbl) \<le> code \<Longrightarrow>
   decode tbl code = Panicked (IndexOutOfRange code (length tbl))"
  by (simp add: decode_def index_out_of_range)

theorem decode_out_of_range_panics_witness:
  "decode [''ok'', ''no device'', ''other''] 7 = Panicked (IndexOutOfRange 7 3) \<and>
   decode [''ok'', ''no device'', ''other''] (- 2) = Panicked (IndexOutOfRange (- 2) 3)"
  using decode_out_of_range_panics [of 7 "[''ok'', ''no device'', ''other'']"]
    decode_out_of_range_panics [of "- 2" "[''ok'', ''no device'', ''other'']"]
  by simp

section \<open>Binary64 rounding: exact cases\<close>

lemma rne_of_int: "rne (of_int m) = m"
  by (simp add: rne_def)

lemma ilog2_of_int:
  assumes "n \<noteq> 0"
  shows "ilog2 (of_int n) = bitlen \<bar>n\<bar> - 1"
proof -
  have pos: "0 < \<bar>n\<bar>" using assms by simp
  have q: "quotient_of \<bar>of_int n :: rat\<bar> = (\<bar>n\<bar>, 1)"
    unfolding of_int_abs [symmetric] by (rule quotient_of_rat_of_int)
  have b1: "bitlen 1 = 1" by (simp add: bitlen_alt_def)
  have bl: "1 \<le> bitlen \<bar>n\<bar>" using pos
    by (simp add: bitlen_alt_def)
  have "(2::int) ^ nat (bitlen \<bar>n\<bar> - 1) \<le> \<bar>n\<bar>"
    using bitlen_bounds [OF pos] by simp
  then have "(of_int ((2::int) ^ nat (bitlen \<bar>n\<bar> - 1)) :: rat) \<le> of_int \<bar>n\<bar>"
    by (simp only: of_int_le_iff)
  then have "pow2 (bitlen \<bar>n\<bar> - 1) \<le> \<bar>of_int n\<bar>"
    using bl by (simp add: pow2_def)
  then show ?thesis
    by (simp add: ilog2_def q b1)
qed

lemma fl_int:
  assumes "\<bar>n\<bar> \<le> 2 ^ 53"
  shows "fl (of_int n) = Fin (of_int n)"
proof (cases "n = 0")
  case True
  then show ?thesis by (simp add: fl_def)
next
  case False
  define k where "k = bitlen \<bar>n\<bar> - 1"
  have pos: "0 < \<bar>n\<bar>" using False by simp
  have k0: "0 \<le> k" using pos by (simp add: k_def bitlen_alt_def)
  have lo: "(2::int) ^ nat k \<le> \<bar>n\<bar>"
    using bitlen_bounds [OF pos] by (simp add: k_def)
  have il: "ilog2 (of_int n) = k"
    using False by (simp add: ilog2_of_int k_def)
  have p: "(2::int) ^ nat k \<le> 2 ^ 53" by (rule order_trans [OF lo assms])
  have "nat k \<le> 53" by (rule power_le_imp_le_exp [OF _ p]) simp
  then have k53: "k \<le> 53" by simp
  obtain m :: int where m: "(of_int n :: rat) / pow2 (k - 52) = of_int m"
  proof (cases "k \<le> 52")
    case True
    then have "pow2 (k - 52) = 1 / 2 ^ nat (52 - k)"
      by (cases "k = 52") (simp_all add: pow2_def)
    then have "(of_int n :: rat) / pow2 (k - 52) = of_int (n * 2 ^ nat (52 - k))"
      by simp
    then show ?thesis using that by blast
  next
    case False
    then have k: "k = 53" using k53 by simp
    then have "\<bar>n\<bar> = 2 ^ 53" using lo assms by simp
    then have "\<bar>n\<bar> = 9007199254740992" by simp
    then have "n = 2 * (n div 2)" by presburger
    then have "(of_int n :: rat) = 2 * of_int (n div 2)"
      by (metis of_int_mult of_int_numeral)
    then have "(of_int n :: rat) / pow2 (k - 52) = of_int (n div 2)"
      by (simp add: k pow2_def)
    then show ?thesis using that by blast
  qed
  have u: "pow2 (k - 52) \<noteq> 0" by (simp add: pow2_def)
  have r: "of_int (rne (of_int n / pow2 (k - 52))) * pow2 (k - 52) = (of_int n :: rat)"
    using u by (simp only: m rne_of_int) (simp add: m [symmetric])
  have mx: "max k (- 1022) = k" using k0 by simp
  show ?thesis
    using False k53 by (simp add: fl_def il mx r Let_def)
qed

lemma fl_0: "fl 0 = Fin 0"
  by (simp add: fl_def)

lemma fl_1: "fl 1 = Fin 1"
  using fl_int [of 1] by simp

lemma fl_numeral: "(numeral k :: int) \<le> 2 ^ 53 \<Longrightarrow> fl (numeral k) = Fin (numeral k)"
  using fl_int [of "numeral k"] by simp

lemma fl_2_53_plus_1: "fl 9007199254740993 = Fin 9007199254740992"
  by code_simp

lemma fl_third: "fl (1 / 3) = Fin (6004799503160661 / 2 ^ 54)"
  by code_simp

lemma fl_2_53_plus_3: "fl 9007199254740995 = Fin 9007199254740996"
  by code_simp

lemmas float_eval =
  linear_value_def logarithmic_value_def float64_of_uint64_def float64_of_int_def
  uint64_of_float64_def fsub_def trunc_def round_away_def inf_of_def
  fl_0 fl_1 fl_numeral fl_2_53_plus_1

section \<open>Properties of the sweep generator\<close>

lemma LinLoop_eq:
  "LinLoop cv s e n i ff =
     ff @ map (\<lambda>j. uint64_of_float64 cv
                 (fadd s (fdiv (fmul (float64_of_int j) (fsub e s)) (fsub (float64_of_int n) (Fin 1)))))
            [i..n - 1]"
proof (induction cv s e n i ff rule: LinLoop.induct)
  case (1 cv s e n i ff)
  show ?case
  proof (cases "i < n")
    case True
    then have "[i..n - 1] = i # [i + 1..n - 1]"
      by (simp add: upto_rec1)
    with True 1 show ?thesis
      by (subst LinLoop.simps) simp
  next
    case False
    then show ?thesis
      by (subst LinLoop.simps) simp
  qed
qed

lemma LinFrequency_eq:
  "LinFrequency cv start end' n =
     map (\<lambda>j. uint64_of_float64 cv (linear_value start end' n j)) [0..n - 1]"
  by (simp add: LinFrequency_def LinLoop_eq linear_value_def Let_def)

lemma length_LinFrequency: "length (LinFrequency cv start end' n) = nat n"
  by (simp add: LinFrequency_eq)

lemma LinFrequency_nth:
  "0 \<le> i \<Longrightarrow> i < n \<Longrightarrow>
   LinFrequency cv start end' n ! nat i = uint64_of_float64 cv (linear_value start end' n i)"
  by (simp add: LinFrequency_eq)

text \<open>
  The example of claim C1 holds on the code: every intermediate value is an integer below
  \<open>2^53\<close>, where binary64 arithmetic is exact.
\<close>

lemma LinFrequency_example: "LinFrequency cv 0 1000 5 = [0, 250, 500, 750, 1000]"
  by (simp add: LinFrequency_eq upto_rec1 float_eval)

text \<open>
  Claim C1 says that the last element of the linear sweep equals \<open>end\<close> exactly for every
  input with at least two points and \<open>end > start\<close>, because the last index is
  special-cased. The loop has no such case: the last element is \<open>uint64(s + (n-1)(e-s)/(n-1))\<close>
  in binary64, where \<open>e = float64(end)\<close>. For \<open>end = 2^53 + 1\<close>, which is no binary64
  value, the conversion rounds to \<open>2^53\<close> and the sweep from 0 with two points ends in
  \<open>2^53\<close>, not in \<open>end\<close>.
\<close>

theorem LinFrequency_last_differs:
  "LinFrequency cv 0 9007199254740993 2 = [0, 9007199254740992] \<and>
   last (LinFrequency cv 0 9007199254740993 2) \<noteq> 9007199254740993"
  by (simp add: LinFrequency_eq upto_rec1 float_eval)

lemma LogLoop_eq:
  "LogLoop pow cv s x n i ff =
     ff @ map (\<lambda>j. uint64_of_float64 cv
                 (Round (fmul s (pow x (fdiv (float64_of_int j) (fsub (float64_of_int n) (Fin 1)))))))
            [i..n - 1]"
proof (induction pow cv s x n i ff rule: LogLoop.induct)
  case (1 pow cv s x n i ff)
  show ?case
  proof (cases "i < n")
    case True
    then have "[i..n - 1] = i # [i + 1..n - 1]"
      by (simp add: upto_rec1)
    with True 1 show ?thesis
      by (subst LogLoop.simps) simp
  next
    case False
    then show ?thesis
      by (subst LogLoop.simps) simp
  qed
qed

lemma LogFrequency_eq:
  "LogFrequency pow cv start end' n =
     map (\<lambda>j. uint64_of_float64 cv (Round (logarithmic_value pow start end' n j))) [0..n - 1]"
  by (simp add: LogFrequency_def LogLoop_eq logarithmic_value_def Let_def)

lemma length_LogFrequency: "length (LogFrequency pow cv start end' n) = nat n"
  by (simp add: LogFrequency_eq)

lemma LogFrequency_nth:
  "0 \<le> i \<Longrightarrow> i < n \<Longrightarrow>
   LogFrequency pow cv start end' n ! nat i =
     uint64_of_float64 cv (Round (logarithmic_value pow start end' n i))"
  by (simp add: LogFrequency_eq)

lemma round_away_nearest: "\<bar>of_int (round_away x) - x\<bar> \<le> 1 / 2"
proof (cases "0 \<le> x")
  case True
  then have r: "round_away x = \<lfloor>x + 1 / 2\<rfloor>"
    by (simp add: round_away_def)
  have "of_int \<lfloor>x + 1 / 2\<rfloor> \<le> x + 1 / 2" "x + 1 / 2 < of_int \<lfloor>x + 1 / 2\<rfloor> + 1"
    by linarith+
  then show ?thesis
    unfolding r by linarith
next
  case False
  then have r: "round_away x = - \<lfloor>- x + 1 / 2\<rfloor>"
    by (simp add: round_away_def)
  have "of_int \<lfloor>- x + 1 / 2\<rfloor> \<le> - x + 1 / 2" "- x + 1 / 2 < of_int \<lfloor>- x + 1 / 2\<rfloor> + 1"
    by linarith+
  then show ?thesis
    unfolding r of_int_minus by linarith
qed

lemma uint64_of_Round:
  assumes "0 \<le> x" "round_away x < 2 ^ 64"
  shows "uint64_of_float64 cv (Round (Fin x)) = word_of_int (round_away x)"
proof -
  have "0 \<le> round_away x"
    using assms(1) by (simp add: round_away_def)
  then show ?thesis
    using assms(2) by (simp add: uint64_of_float64_def trunc_def)
qed

lemma uint64_of_Fin:
  assumes "0 \<le> x" "x < 2 ^ 64"
  shows "uint64_of_float64 cv (Fin x) = word_of_int \<lfloor>x\<rfloor>"
proof -
  have "\<lfloor>x\<rfloor> < 2 ^ 64"
    using assms(2) by (simp add: floor_less_iff)
  then show ?thesis
    using assms(1) by (simp add: uint64_of_float64_def trunc_def)
qed

lemma linear_value_one: "linear_value start end' 1 0 = NaN"
proof -
  have d: "fsub (float64_of_int 1) (Fin 1) = Fin 0"
    by (simp add: float_eval)
  have z: "float64_of_int 0 = Fin 0"
    by (simp add: float_eval)
  have "fdiv (fmul (Fin 0) y) (Fin 0) = NaN" for y
    by (cases y) (simp_all add: fl_0 inf_of_def)
  then have "fadd x (fdiv (fmul (Fin 0) y) (Fin 0)) = NaN" for x y
    by (cases x) simp_all
  then show ?thesis
    by (simp add: linear_value_def d z)
qed

lemma fdiv_zero_zero: "fdiv (float64_of_int 0) (fsub (float64_of_int 1) (Fin 1)) = NaN"
  by (simp add: float_eval)

text \<open>
  Claim C3, as amended. Neither generator validates the point count or has an error
  result. For a point count below 2 each returns a sequence: the empty one for a count of
  0 or less, and for a count of 1 the single point that the formula gives at \<open>i = 0\<close>,
  with the divisor \<open>pointCount - 1 = 0\<close>.
\<close>

theorem generators_below_two:
  "size' < 2 \<Longrightarrow>
   LinFrequency cv start end' size' =
     (if size' = 1 then [uint64_of_float64 cv (linear_value start end' 1 0)] else []) \<and>
   LogFrequency pow cv start end' size' =
     (if size' = 1 then [uint64_of_float64 cv (Round (logarithmic_value pow start end' 1 0))]
      else [])"
  by (simp add: LinFrequency_eq LogFrequency_eq)

text \<open>Claim C3, as amended, at point counts 1, 0 and -3.\<close>

theorem generators_below_two_witness:
  "LinFrequency cv0 0 1000 1 = [uint64_of_float64 cv0 (linear_value 0 1000 1 0)] \<and>
   LogFrequency pow01 cv0 1 1000 1 = [uint64_of_float64 cv0 (Round (logarithmic_value pow01 1 1000 1 0))] \<and>
   LinFrequency cv0 0 1000 0 = [] \<and> LogFrequency pow01 cv0 1 1000 (- 3) = []"
  using generators_below_two [of 1 cv0 0 1000 pow01] generators_below_two [of 1 cv0 1 1000 pow01]
    generators_below_two [of 0 cv0 0 1000 pow01] generators_below_two [of "- 3" cv0 1 1000 pow01]
  by simp

text \<open>
  Claim C3, as stated, fails: with one point both generators return a one-element
  sequence, not a validation error. The formula is evaluated, its value is NaN, and the
  element is whatever the conversion of NaN to \<^verbatim>\<open>uint64\<close> yields.
\<close>

theorem generators_accept_one_point:
  "LinFrequency cv0 0 1000 1 = [cv0 NaN] \<and> length (LinFrequency cv0 0 1000 1) = 1 \<and>
   LogFrequency pow01 cv0 1 1000 1 = [cv0 NaN] \<and> length (LogFrequency pow01 cv0 1 1000 1) = 1"
proof -
  have "logarithmic_value pow01 1 1000 1 0 = NaN"
    by (simp add: logarithmic_value_def fdiv_zero_zero pow01_def float64_of_uint64_def fl_1)
  then show ?thesis
    by (simp add: LinFrequency_eq LogFrequency_eq linear_value_one uint64_of_float64_def)
qed

text \<open>
  Claim C6. For every index \<open>0 \<le> i < pointCount\<close> the logarithmic generator yields
  \<open>uint64(Round(v))\<close>, where \<open>v\<close> is \<open>start (end / start) ^ (i / (pointCount - 1))\<close>
  evaluated in binary64; when \<open>v\<close> is finite, not negative and rounds below \<open>2^64\<close>,
  the point is the integer nearest to \<open>v\<close> (at most 1/2 away). The linear generator
  yields \<open>uint64(v')\<close> for its own value \<open>v'\<close>, which is the floor of \<open>v'\<close>
  when \<open>0 \<le> v' < 2^64\<close>: it truncates. No assumption on \<open>start\<close> is needed.
\<close>

theorem LogFrequency_rounds:
  "0 \<le> i \<Longrightarrow> i < size' \<Longrightarrow>
   index (LogFrequency pow cv start end' size') i =
     Returned (uint64_of_float64 cv (Round (logarithmic_value pow start end' size' i))) \<and>
   (\<forall>x. logarithmic_value pow start end' size' i = Fin x \<and> 0 \<le> x \<and> round_away x < 2 ^ 64 \<longrightarrow>
      LogFrequency pow cv start end' size' ! nat i = word_of_int (round_away x) \<and>
      \<bar>of_int (round_away x) - x\<bar> \<le> 1 / 2) \<and>
   index (LinFrequency cv start end' size') i =
     Returned (uint64_of_float64 cv (linear_value start end' size' i)) \<and>
   (\<forall>x. linear_value start end' size' i = Fin x \<and> 0 \<le> x \<and> x < 2 ^ 64 \<longrightarrow>
      LinFrequency cv start end' size' ! nat i = word_of_int \<lfloor>x\<rfloor>)"
proof (intro conjI allI impI)
  assume i: "0 \<le> i" "i < size'"
  show "index (LogFrequency pow cv start end' size') i =
      Returned (uint64_of_float64 cv (Round (logarithmic_value pow start end' size' i)))"
    using i by (simp add: index_def length_LogFrequency LogFrequency_nth)
  show "index (LinFrequency cv start end' size') i =
      Returned (uint64_of_float64 cv (linear_value start end' size' i))"
    using i by (simp add: index_def length_LinFrequency LinFrequency_nth)
  {
    fix x
    assume x: "logarithmic_value pow start end' size' i = Fin x \<and> 0 \<le> x \<and> round_away x < 2 ^ 64"
    have "LogFrequency pow cv start end' size' ! nat i = uint64_of_float64 cv (Round (Fin x))"
      using i x by (simp only: LogFrequency_nth)
    then show "LogFrequency pow cv start end' size' ! nat i = word_of_int (round_away x)"
      using x by (simp only: uint64_of_Round)
    show "\<bar>of_int (round_away x) - x\<bar> \<le> 1 / 2"
      by (rule round_away_nearest)
  }
  {
    fix x
    assume x: "linear_value start end' size' i = Fin x \<and> 0 \<le> x \<and> x < 2 ^ 64"
    have "LinFrequency cv start end' size' ! nat i = uint64_of_float64 cv (Fin x)"
      using i x by (simp only: LinFrequency_nth)
    then show "LinFrequency cv start end' size' ! nat i = word_of_int \<lfloor>x\<rfloor>"
      using x by (simp only: uint64_of_Fin)
  }
qed

text \<open>
  The constant \<open>sqrt3\<close> is the binary64 value nearest to the square root of 3: its
  neighbours at half a unit in the last place lie on either side of the root. It lies
  strictly between 1 and 2 and above 3/2, so it truncates to 1 and rounds to 2.
\<close>

lemma sqrt3_nearest:
  "(sqrt3 - 1 / 2 ^ 53) ^ 2 < 3 \<and> 3 < (sqrt3 + 1 / 2 ^ 53) ^ 2"
  by (simp add: sqrt3_def power2_eq_square field_simps)

lemma fl_half: "fl (1 / 2) = Fin (1 / 2)"
  by code_simp

lemma fl_sqrt3: "fl sqrt3 = Fin sqrt3"
  unfolding sqrt3_def by code_simp

lemma fl_three_halves: "fl (3 / 2) = Fin (3 / 2)"
  by code_simp

lemma fl_five_halves: "fl (5 / 2) = Fin (5 / 2)"
  by code_simp

lemma round_away_sqrt3: "round_away sqrt3 = 2"
  by (simp add: round_away_def sqrt3_def floor_eq_iff)

lemma floor_sqrt3: "\<lfloor>sqrt3\<rfloor> = 1"
  by (simp add: sqrt3_def floor_eq_iff)

text \<open>
  Claim C6 at the middle point of two three-point sweeps, where rounding and truncation
  differ. From 1 to 3 the logarithmic value is \<open>sqrt3 = 1.732...\<close> and the point is 2,
  the nearest integer, not the truncation 1. From 1 to 4 the linear value is 5/2 and the
  point is 2, the truncation, not the rounding 3.
\<close>

theorem LogFrequency_rounds_witness:
  "(0::int) \<le> 1 \<and> (1::int) < 3 \<and>
   logarithmic_value pow_half 1 3 3 1 = Fin sqrt3 \<and> 0 \<le> sqrt3 \<and> round_away sqrt3 < 2 ^ 64 \<and>
   \<lfloor>sqrt3\<rfloor> = 1 \<and> round_away sqrt3 = 2 \<and>
   index (LogFrequency pow_half cv0 1 3 3) 1 = Returned 2 \<and>
   LogFrequency pow_half cv0 1 3 3 ! nat 1 = 2 \<and>
   linear_value 1 4 3 1 = Fin (5 / 2) \<and>
   index (LinFrequency cv0 1 4 3) 1 = Returned 2 \<and>
   LinFrequency cv0 1 4 3 ! nat 1 = 2"
proof -
  have lg: "logarithmic_value pow_half 1 3 3 1 = Fin sqrt3"
    by (simp add: float_eval pow_half_def fl_half fl_sqrt3)
  have ln: "linear_value 1 4 3 1 = Fin (5 / 2)"
    by (simp add: float_eval fl_three_halves fl_five_halves)
  have s: "0 \<le> sqrt3" "round_away sqrt3 < 2 ^ 64"
    by (simp_all add: round_away_sqrt3) (simp add: sqrt3_def)
  have f: "\<lfloor>5 / 2 :: rat\<rfloor> = 2"
    by (simp add: floor_eq_iff)
  have A: "index (LogFrequency pow_half cv0 1 3 3) 1 =
      Returned (uint64_of_float64 cv0 (Round (logarithmic_value pow_half 1 3 3 1))) \<and>
    (\<forall>x. logarithmic_value pow_half 1 3 3 1 = Fin x \<and> 0 \<le> x \<and> round_away x < 2 ^ 64 \<longrightarrow>
      LogFrequency pow_half cv0 1 3 3 ! nat 1 = word_of_int (round_away x) \<and>
      \<bar>of_int (round_away x) - x\<bar> \<le> 1 / 2) \<and>
    index (LinFrequency cv0 1 3 3) 1 =
      Returned (uint64_of_float64 cv0 (linear_value 1 3 3 1)) \<and>
    (\<forall>x. linear_value 1 3 3 1 = Fin x \<and> 0 \<le> x \<and> x < 2 ^ 64 \<longrightarrow>
      LinFrequency cv0 1 3 3 ! nat 1 = word_of_int \<lfloor>x\<rfloor>)"
    by (rule LogFrequency_rounds) simp_all
  have B: "index (LogFrequency pow_half cv0 1 4 3) 1 =
      Returned (uint64_of_float64 cv0 (Round (logarithmic_value pow_half 1 4 3 1))) \<and>
    (\<forall>x. logarithmic_value pow_half 1 4 3 1 = Fin x \<and> 0 \<le> x \<and> round_away x < 2 ^ 64 \<longrightarrow>
      LogFrequency pow_half cv0 1 4 3 ! nat 1 = word_of_int (round_away x) \<and>
      \<bar>of_int (round_away x) - x\<bar> \<le> 1 / 2) \<and>
    index (LinFrequency cv0 1 4 3) 1 =
      Returned (uint64_of_float64 cv0 (linear_value 1 4 3 1)) \<and>
    (\<forall>x. linear_value 1 4 3 1 = Fin x \<and> 0 \<le> x \<and> x < 2 ^ 64 \<longrightarrow>
      LinFrequency cv0 1 4 3 ! nat 1 = word_of_int \<lfloor>x\<rfloor>)"
    by (rule LogFrequency_rounds) simp_all
  have "uint64_of_float64 cv0 (Round (Fin sqrt3)) = word_of_int (round_away sqrt3)"
    by (rule uint64_of_Round [OF s])
  then have u: "uint64_of_float64 cv0 (Round (Fin sqrt3)) = 2"
    by (simp only: round_away_sqrt3) simp
  have t: "uint64_of_float64 cv0 (Fin (5 / 2)) = 2"
    by (simp add: uint64_of_Fin f)
  have a1: "index (LogFrequency pow_half cv0 1 3 3) 1 = Returned 2"
    using A [THEN conjunct1] by (simp only: lg u)
  from A [THEN conjunct2, THEN conjunct1, THEN spec, of sqrt3]
  have a2: "LogFrequency pow_half cv0 1 3 3 ! nat 1 = 2"
    using lg s by (simp add: round_away_sqrt3)
  have b1: "index (LinFrequency cv0 1 4 3) 1 = Returned 2"
    using B [THEN conjunct2, THEN conjunct2, THEN conjunct1] by (simp only: ln t)
  from B [THEN conjunct2, THEN conjunct2, THEN conjunct2, THEN spec, of "5 / 2"]
  have b2: "LinFrequency cv0 1 4 3 ! nat 1 = 2"
    using ln by (simp add: f)
  show ?thesis
    using lg ln s a1 a2 b1 b2 by (simp add: round_away_sqrt3 floor_sqrt3)
qed

text \<open>The two conversions differ on 5/2: rounded it is 3, truncated it is 2.\<close>

lemma round_versus_truncate:
  "uint64_of_float64 cv (Round (Fin (5 / 2))) = 3 \<and> uint64_of_float64 cv (Fin (5 / 2)) = 2"
proof -
  have t: "\<lfloor>5 / 2 :: rat\<rfloor> = 2"
    by (simp add: floor_eq_iff)
  have r: "round_away (5 / 2) = 3"
    by (simp add: round_away_def)
  show ?thesis
    by (simp add: uint64_of_float64_def trunc_def r t)
qed

lemma float64_of_uint64_exact:
  assumes "uint w \<le> 2 ^ 53"
  shows "float64_of_uint64 w = Fin (of_int (uint w))"
proof -
  have "\<bar>uint w\<bar> \<le> 2 ^ 53"
    using assms by simp
  then have "fl (of_int (uint w)) = Fin (of_int (uint w))"
    by (rule fl_int)
  then show ?thesis
    by (simp add: float64_of_uint64_def)
qed

text \<open>
  Where claim C1 does hold on the code: when \<open>end\<close> and \<open>(n - 1) (end - start)\<close>
  do not exceed \<open>2^53\<close>, every step of the last point's computation is exact.
\<close>

lemma LinFrequency_last_exact:
  assumes n: "2 \<le> n" "n \<le> 2 ^ 53"
    and se: "start \<le> end'" "uint end' \<le> 2 ^ 53"
    and prod: "(n - 1) * (uint end' - uint start) \<le> 2 ^ 53"
  shows "last (LinFrequency cv start end' n) = end'"
proof -
  define S where "S = uint start"
  define E where "E = uint end'"
  have SE: "0 \<le> S" "S \<le> E" using se(1) by (simp_all add: S_def E_def word_le_def)
  have E53: "E \<le> 2 ^ 53"
    using se(2) by (simp add: E_def)
  have s: "float64_of_uint64 start = Fin (of_int S)"
    unfolding S_def by (rule float64_of_uint64_exact) (use SE E53 in \<open>simp add: S_def\<close>)
  have e: "float64_of_uint64 end' = Fin (of_int E)"
    unfolding E_def by (rule float64_of_uint64_exact) (rule se(2))
  have d: "fsub (Fin (of_int E)) (Fin (of_int S)) = Fin (of_int (E - S))"
    using fl_int [of "E - S"] SE E53 by (simp add: fsub_def)
  have i: "float64_of_int (n - 1) = Fin (of_int (n - 1))"
    using fl_int [of "n - 1"] n by (simp add: float64_of_int_def)
  have m: "fmul (Fin (of_int (n - 1))) (Fin (of_int (E - S))) = Fin (of_int ((n - 1) * (E - S)))"
  proof -
    have "0 \<le> (n - 1) * (E - S)" using n SE by simp
    then have "\<bar>(n - 1) * (E - S)\<bar> \<le> 2 ^ 53"
      using prod by (simp add: S_def E_def)
    from fl_int [OF this] show ?thesis by simp
  qed
  have c: "fsub (float64_of_int n) (Fin 1) = Fin (of_int (n - 1))"
    using fl_int [of n] fl_int [of "n - 1"] n by (simp add: float64_of_int_def fsub_def)
  have q: "fdiv (Fin (of_int ((n - 1) * (E - S)))) (Fin (of_int (n - 1))) = Fin (of_int (E - S))"
    using fl_int [of "E - S"] SE E53 n by simp
  have a: "fadd (Fin (of_int S)) (Fin (of_int (E - S))) = Fin (of_int E)"
    using fl_int [of E] SE E53 by simp
  have v: "linear_value start end' n (n - 1) = Fin (of_int E)"
    by (simp only: linear_value_def s e d i m c q a)
  have "E < 2 ^ 64" using E53 by simp
  then have u: "uint64_of_float64 cv (Fin (of_int E)) = word_of_int E"
    using SE by (simp add: uint64_of_float64_def trunc_def)
  have w: "word_of_int E = end'" by (simp add: E_def)
  have ne: "LinFrequency cv start end' n \<noteq> []"
    using n length_LinFrequency [of cv start end' n] by auto
  have "last (LinFrequency cv start end' n) = LinFrequency cv start end' n ! nat (n - 1)"
    using n by (simp add: last_conv_nth [OF ne] length_LinFrequency nat_diff_distrib)
  also have "\<dots> = uint64_of_float64 cv (linear_value start end' n (n - 1))"
    using n by (simp add: LinFrequency_nth)
  finally show ?thesis by (simp only: v u w)
qed

section \<open>Properties of the sweep query\<close>

lemma length_array512: "length (array512 xs) = 512"
  by (simp add: array512_def)

lemma sweep_point_in_range:
  assumes "0 \<le> i" "i < 512" "i < int (length ff)"
    and "length a11 = 512" "length a12 = 512" "length a21 = 512" "length a22 = 512"
  shows "\<exists>s. sweep_point a11 a12 a21 a22 ff i = Returned s"
  using assms by (simp add: sweep_point_def index_def)

lemma sweep_point_512:
  assumes "length a11 = 512"
  shows "sweep_point a11 a12 a21 a22 ff 512 = Panicked (IndexOutOfRange 512 512)"
  using assms by (simp add: sweep_point_def index_def)

lemma sweep_loop_overflow:
  assumes len: "length a11 = 512" "length a12 = 512" "length a21 = 512" "length a22 = 512"
    and ff: "length ff = nat size'" and big: "512 < size'"
  shows "0 \<le> i \<Longrightarrow> i \<le> 512 \<Longrightarrow>
         sweep_loop a11 a12 a21 a22 ff size' i ss = Panicked (IndexOutOfRange 512 512)"
proof (induction "nat (512 - i)" arbitrary: i ss)
  case 0
  then have i: "i = 512" by simp
  show ?case
    using big by (subst sweep_loop.simps) (simp add: i sweep_point_512 [OF len(1)])
next
  case (Suc k)
  then have i: "0 \<le> i" "i < 512" by simp_all
  then have "i < int (length ff)" using ff big by simp
  from sweep_point_in_range [OF i this len]
  obtain s where s: "sweep_point a11 a12 a21 a22 ff i = Returned s" ..
  have "sweep_loop a11 a12 a21 a22 ff size' i ss =
        sweep_loop a11 a12 a21 a22 ff size' (i + 1) (ss @ [s])"
    using i big by (subst sweep_loop.simps) (simp add: s)
  also have "\<dots> = Panicked (IndexOutOfRange 512 512)"
    using Suc.hyps(2) i by (intro Suc.hyps(1)) simp_all
  finally show ?case .
qed

lemma length_generated:
  "length (if distr = 1 then LinFrequency cv start end' n else LogFrequency pow cv start end' n) = nat n"
  by (simp add: length_LinFrequency length_LogFrequency)

lemma rangeQuery_overflow:
  assumes "512 < size'"
  shows "rangeQuery lib Results pow cv h start end' size' distr avg p w =
     (Panicked (IndexOutOfRange 512 512),
      snd (pocketvna_range_query lib h start end' (word_of_int size') distr avg (encodeParams p) w))"
proof -
  obtain result b11 b21 b12 b22 w' where
    c: "pocketvna_range_query lib h start end' (word_of_int size') distr avg (encodeParams p) w =
        ((result, b11, b21, b12, b22), w')"
    by (metis prod_cases5 surj_pair)
  have "sweep_loop (array512 b11) (array512 b12) (array512 b21) (array512 b22)
          (if distr = 1 then LinFrequency cv start end' size'
           else LogFrequency pow cv start end' size') size' 0 [] =
        Panicked (IndexOutOfRange 512 512)"
    by (rule sweep_loop_overflow) (simp_all add: length_array512 length_generated assms)
  then show ?thesis
    by (simp add: rangeQuery_def c Let_def)
qed

text \<open>
  Claim C2 says that the dispatcher checks the point count against the buffer capacity of
  512 before it invokes the hardware sweep, and returns an error result when the count is
  larger. The code has no such check. For the sweep request with 513 points the native
  sweep is invoked with size 513 and the four 512-element buffers (the state returned is
  the one after that call), and the loop that copies the results then reads index 512 of
  a 512-element array: the dispatcher panics and returns no result at all.
\<close>

theorem HandleCommand_sweep_overflow:
  "HandleCommand lib Results pow cv v (VRangeQuery sweep513) w =
     (Panicked (IndexOutOfRange 512 512),
      snd (pocketvna_range_query lib (handle v) 1000 2000 513 1 1 2 w))"
  by (simp add: RangeQuery_def rangeQuery_overflow reply_def sweep513_def encodeParams_def)

text \<open>The same request on the library that logs its calls: the sweep call was made.\<close>

lemma sweep513_logged:
  "HandleCommand logging_library messages pow01 cv0 \<lparr>handle = 0\<rparr> (VRangeQuery sweep513) [] =
     (Panicked (IndexOutOfRange 512 512), [''range_query''])"
  by (simp add: RangeQuery_def rangeQuery_overflow reply_def sweep513_def encodeParams_def
      logging_library_def)

section \<open>Properties of the device actor\<close>

text \<open>
  Claim C9. When the connect attempt at the start of the actor fails (the status code of
  acquiring the first device handle decodes to an error message), the actor sends exactly
  one error result, carrying that message, and terminates. This holds whatever commands
  and cancellation are pending, so none of them is processed, and the state of the native
  library is the one left by the single acquire call: no second attempt and no other call
  is made.
\<close>

theorem Run_connect_failure:
  "pocketvna_get_first_device_handle lib w = ((code, h), w') \<Longrightarrow>
   decode Results code = Returned (Some m) \<Longrightarrow>
   Run lib Results pow cv v evs w = ([VCustomResult m Nil], Terminated, w')"
  by (simp add: Run_def Connect_def getFirstDeviceHandle_def)

text \<open>
  Claim C9 on the library that logs its calls, with two commands and a cancellation
  pending: the log holds the one acquire call.
\<close>

theorem Run_connect_failure_witness:
  "pocketvna_get_first_device_handle logging_library [] = ((1, 0), [''get_first_device_handle'']) \<and>
   decode messages 1 = Returned (Some ''no device'') \<and>
   Run logging_library messages pow01 cv0 \<lparr>handle = 0\<rparr>
     [Cmd (VRangeQuery sweep513), Cmd (VOther ()), Done] [] =
     ([VCustomResult ''no device'' Nil], Terminated, [''get_first_device_handle''])"
proof -
  have a: "pocketvna_get_first_device_handle logging_library [] =
      ((1, 0), [''get_first_device_handle''])"
    by (simp add: logging_library_def)
  have b: "decode messages 1 = Returned (Some ''no device'')"
    by (simp add: decode_def index_def messages_def)
  show ?thesis
    using Run_connect_failure [OF a b, of pow01 cv0 "\<lparr>handle = 0\<rparr>"
        "[Cmd (VRangeQuery sweep513), Cmd (VOther ()), Done]"] a b
    by simp
qed

section \<open>Properties of the switch protocol\<close>

lemma receive_loop_unexpected:
  "i < 5 \<Longrightarrow> unexpected port x \<Longrightarrow>
   receive_loop port i (Received x # rest) = receive_loop port (i + 1) rest"
  by (cases x) auto

lemma receive_loop_exhausted: "5 \<le> i \<Longrightarrow> receive_loop port i rs = Some ''Too many Unexpected responses''"
  by (cases "(port, i, rs)" rule: receive_loop.cases) simp_all

lemma receive_loop_all_unexpected:
  "i \<le> 5 \<Longrightarrow> length xs = nat (5 - i) \<Longrightarrow> \<forall>x \<in> set xs. unexpected port x \<Longrightarrow>
   receive_loop port i (map Received xs @ later) = Some ''Too many Unexpected responses''"
proof (induction xs arbitrary: i)
  case Nil
  then have "5 \<le> i" by simp
  then show ?case by (simp add: receive_loop_exhausted)
next
  case (Cons x xs)
  then have i: "i < 5" by auto
  have "receive_loop port i (map Received (x # xs) @ later) =
        receive_loop port (i + 1) (map Received xs @ later)"
    using i Cons.prems(3) by (simp add: receive_loop_unexpected)
  also have "\<dots> = Some ''Too many Unexpected responses''"
    using Cons.prems i by (intro Cons.IH) auto
  finally show ?case .
qed

lemma receive_loop_skip:
  "i + int (length us) \<le> 5 \<Longrightarrow>
   \<forall>r \<in> set us. Report r \<noteq> ''error'' \<and> \<not> (Report r = ''port'' \<and> Is r = port) \<Longrightarrow>
   receive_loop port i (map (\<lambda>r. Received (VReport r)) us @ tail) =
     receive_loop port (i + int (length us)) tail"
proof (induction us arbitrary: i)
  case Nil
  then show ?case by simp
next
  case (Cons u us)
  have i: "i < 5" using Cons.prems(1) by simp
  have u: "Report u \<noteq> ''error''" "\<not> (Report u = ''port'' \<and> Is u = port)"
    using Cons.prems(2) by simp_all
  have "receive_loop port i (map (\<lambda>r. Received (VReport r)) (u # us) @ tail) =
        receive_loop port (i + 1) (map (\<lambda>r. Received (VReport r)) us @ tail)"
    using i u by auto
  also have "\<dots> = receive_loop port (i + 1 + int (length us)) tail"
    using Cons.prems by (intro Cons.IH) simp_all
  finally show ?case by (simp add: add.assoc)
qed

text \<open>
  Claim C7. Reports that are neither an error report nor the report of kind \<open>port\<close>
  with the requested value are discarded and the receive loop goes on: after fewer than
  five of them the result of \<open>SetPort\<close> is decided by what comes next alone. It is
  success on the matching report, the device error on an error report, and the receive
  timeout when the timer fires or nothing more arrives. The discarded reports leave no
  trace: the request is the only command sent and no error is due to them.
\<close>

theorem SetPort_ignores_mismatch:
  assumes "length us < 5"
    and "\<forall>r \<in> set us. Report r \<noteq> ''error'' \<and> \<not> (Report r = ''port'' \<and> Is r = port)"
  shows
    "(\<forall>m rest. Report m = ''port'' \<and> Is m = port \<longrightarrow>
        SetPort port Sent (map (\<lambda>r. Received (VReport r)) us @ Received (VReport m) # rest) =
          ([\<lparr>Set = ''port'', To = port\<rparr>], None)) \<and>
     (\<forall>m rest. Report m = ''error'' \<longrightarrow>
        SetPort port Sent (map (\<lambda>r. Received (VReport r)) us @ Received (VReport m) # rest) =
          ([\<lparr>Set = ''port'', To = port\<rparr>], Some (''Error'' @ Is m))) \<and>
     (\<forall>rest.
        SetPort port Sent (map (\<lambda>r. Received (VReport r)) us @ ReceiveTimeout # rest) =
          ([\<lparr>Set = ''port'', To = port\<rparr>], Some ''timeout receiving response'')) \<and>
     SetPort port Sent (map (\<lambda>r. Received (VReport r)) us) =
       ([\<lparr>Set = ''port'', To = port\<rparr>], Some ''timeout receiving response'')"
proof -
  have le: "0 + int (length us) \<le> 5" and lt: "int (length us) < 5"
    using assms(1) by simp_all
  have skip: "receive_loop port 0 (map (\<lambda>r. Received (VReport r)) us @ tail) =
      receive_loop port (int (length us)) tail" for tail
    using receive_loop_skip [OF le assms(2), of tail] by simp
  have last: "receive_loop port 0 (map (\<lambda>r. Received (VReport r)) us) =
      receive_loop port (int (length us)) []"
    using skip [of "[]"] by simp
  show ?thesis
    using lt by (simp add: SetPort_def skip last)
qed

text \<open>
  Claim C7 with the one discarded report \<open>{port, open}\<close> for \<open>SetPort("dut")\<close>. The
  first line is the example of the claim: the responses \<open>{port, open}\<close>,
  \<open>{port, dut}\<close> give success. Followed by an error report, by a timeout or by nothing,
  the same discarded report gives the error or the timeout.
\<close>

theorem SetPort_ignores_mismatch_witness:
  "length [\<lparr>Report = ''port'', Is = ''open''\<rparr>] < 5 \<and>
   SetPort ''dut'' Sent
     [Received (VReport \<lparr>Report = ''port'', Is = ''open''\<rparr>),
      Received (VReport \<lparr>Report = ''port'', Is = ''dut''\<rparr>)] =
     ([\<lparr>Set = ''port'', To = ''dut''\<rparr>], None) \<and>
   SetPort ''dut'' Sent
     [Received (VReport \<lparr>Report = ''port'', Is = ''open''\<rparr>),
      Received (VReport \<lparr>Report = ''error'', Is = ''bad state''\<rparr>)] =
     ([\<lparr>Set = ''port'', To = ''dut''\<rparr>], Some ''Errorbad state'') \<and>
   SetPort ''dut'' Sent
     [Received (VReport \<lparr>Report = ''port'', Is = ''open''\<rparr>), ReceiveTimeout] =
     ([\<lparr>Set = ''port'', To = ''dut''\<rparr>], Some ''timeout receiving response'') \<and>
   SetPort ''dut'' Sent [Received (VReport \<lparr>Report = ''port'', Is = ''open''\<rparr>)] =
     ([\<lparr>Set = ''port'', To = ''dut''\<rparr>], Some ''timeout receiving response'')"
proof -
  have a: "length [\<lparr>Report = ''port'', Is = ''open''\<rparr>] < 5"
    by simp
  have b: "\<forall>r \<in> set [\<lparr>Report = ''port'', Is = ''open''\<rparr>].
      Report r \<noteq> ''error'' \<and> \<not> (Report r = ''port'' \<and> Is r = ''dut'')"
    by simp
  from SetPort_ignores_mismatch [OF a b] have
    "SetPort ''dut'' Sent
       (map (\<lambda>r. Received (VReport r)) [\<lparr>Report = ''port'', Is = ''open''\<rparr>] @
        Received (VReport \<lparr>Report = ''port'', Is = ''dut''\<rparr>) # []) =
       ([\<lparr>Set = ''port'', To = ''dut''\<rparr>], None)"
    "SetPort ''dut'' Sent
       (map (\<lambda>r. Received (VReport r)) [\<lparr>Report = ''port'', Is = ''open''\<rparr>] @
        Received (VReport \<lparr>Report = ''error'', Is = ''bad state''\<rparr>) # []) =
       ([\<lparr>Set = ''port'', To = ''dut''\<rparr>], Some (''Error'' @ Is \<lparr>Report = ''error'', Is = ''bad state''\<rparr>))"
    "SetPort ''dut'' Sent
       (map (\<lambda>r. Received (VReport r)) [\<lparr>Report = ''port'', Is = ''open''\<rparr>] @ ReceiveTimeout # []) =
       ([\<lparr>Set = ''port'', To = ''dut''\<rparr>], Some ''timeout receiving response'')"
    "SetPort ''dut'' Sent (map (\<lambda>r. Received (VReport r)) [\<lparr>Report = ''port'', Is = ''open''\<rparr>]) =
       ([\<lparr>Set = ''port'', To = ''dut''\<rparr>], Some ''timeout receiving response'')"
    by simp_all
  then show ?thesis
    by simp
qed

text \<open>
  Claim C8. After the request is sent, five responses in a row that are neither an error
  report nor the matching report exhaust the five rounds of the loop, and \<open>SetPort\<close>
  fails with the error \<open>Too many Unexpected responses\<close>, whatever arrives later.
\<close>

theorem SetPort_too_many_unexpected:
  "length xs = 5 \<Longrightarrow> \<forall>x \<in> set xs. unexpected port x \<Longrightarrow>
   SetPort port Sent (map Received xs @ later) =
     ([\<lparr>Set = ''port'', To = port\<rparr>], Some ''Too many Unexpected responses'')"
  using receive_loop_all_unexpected [of 0 xs port later] by (simp add: SetPort_def)

text \<open>
  Claim C8 with mismatched reports, a value that is no report and an empty report; the
  matching report arrives sixth and is never read.
\<close>

theorem SetPort_too_many_unexpected_witness:
  "SetPort ''dut'' Sent
     [Received (VReport \<lparr>Report = ''port'', Is = ''open''\<rparr>),
      Received VNotReport,
      Received (VReport \<lparr>Report = ''port'', Is = ''load''\<rparr>),
      Received (VReport \<lparr>Report = '''', Is = ''''\<rparr>),
      Received (VReport \<lparr>Report = ''port'', Is = ''short''\<rparr>),
      Received (VReport \<lparr>Report = ''port'', Is = ''dut''\<rparr>)] =
     ([\<lparr>Set = ''port'', To = ''dut''\<rparr>], Some ''Too many Unexpected responses'')"
  using SetPort_too_many_unexpected [of
      "[VReport \<lparr>Report = ''port'', Is = ''open''\<rparr>, VNotReport,
        VReport \<lparr>Report = ''port'', Is = ''load''\<rparr>, VReport \<lparr>Report = '''', Is = ''''\<rparr>,
        VReport \<lparr>Report = ''port'', Is = ''short''\<rparr>]"
      "''dut''" "[Received (VReport \<lparr>Report = ''port'', Is = ''dut''\<rparr>)]"]
  by simp

section \<open>Properties of the outbound transport adapter\<close>

text \<open>
  Claim C4, as amended. When \<open>json.Marshal\<close> fails on a value, the adapter logs one warning
  and still forwards one text message for that value to the transport's outbound channel,
  with the payload that the failed call returned; it then goes on with the next value.
  The adapter has no result, so no error reaches the caller.
\<close>

theorem PipeInterfaceToWs_forwards_on_failure:
  "snd (Marshal s) = Some e \<Longrightarrow>
   PipeInterfaceToWs Marshal (In s # evs) =
     (\<lparr>Data = fst (Marshal s), Type = TextMessage\<rparr> # fst (PipeInterfaceToWs Marshal evs),
      Warning e ''Could not turn interface{} into JSON'' # snd (PipeInterfaceToWs Marshal evs))"
  by (cases "Marshal s"; cases "PipeInterfaceToWs Marshal evs") simp

text \<open>Claim C4, as amended, on a value that cannot be serialized.\<close>

theorem PipeInterfaceToWs_forwards_on_failure_witness:
  "snd (failing_Marshal ()) = Some ''json: unsupported type'' \<and>
   PipeInterfaceToWs failing_Marshal [In ()] =
     ([\<lparr>Data = [], Type = 1\<rparr>],
      [Warning ''json: unsupported type'' ''Could not turn interface{} into JSON''])"
  using PipeInterfaceToWs_forwards_on_failure [of failing_Marshal "()" "''json: unsupported type''" "[]"]
  by (simp add: failing_Marshal_def TextMessage_def)

text \<open>
  Claim C4, as stated, fails: for a value whose serialization fails the adapter does put
  a message on the outbound channel (a text frame with an empty payload).
\<close>

theorem PipeInterfaceToWs_not_dropped:
  "snd (failing_Marshal ()) \<noteq> None \<and>
   fst (PipeInterfaceToWs failing_Marshal [In ()]) = [\<lparr>Data = [], Type = 1\<rparr>] \<and>
   fst (PipeInterfaceToWs failing_Marshal [In ()]) \<noteq> []"
  by (simp add: failing_Marshal_def TextMessage_def)

end
